theory Spec2Isabelle
  imports Main "HOL-Library.Multiset"
begin

section \<open>Image references (package image)\<close>

text \<open>
  The Go struct \<^verbatim>\<open>URI\<close> with its three string fields. Go strings are byte
  sequences; they are modelled as \<open>string\<close>.
\<close>

record URI =
  Host :: string
  Name :: string
  Tag :: string

text \<open>
  The three error types a parse can return, and the run-time panic of an index that is
  out of range (it is a branch of the model, shown below to be unreachable).
\<close>

datatype image_error =
    EmptyError
  | InvalidURIError string
  | MultiColonRegistryURIError
  | IndexOutOfRange

definition PartCountAfterSplitByColon :: nat where
  "PartCountAfterSplitByColon = 2"

text \<open>
  \<^verbatim>\<open>strings.Split(s, sep)\<close> for a separator of one byte: the pieces of \<open>s\<close>
  between the occurrences of the separator; a string without the separator is its only
  piece, and the empty string gives the one empty piece.
\<close>

fun Split :: "char \<Rightarrow> string \<Rightarrow> string list" where
  "Split c [] = [[]]"
| "Split c (x # xs) =
     (if x = c then [] # Split c xs
      else (case Split c xs of
              [] \<Rightarrow> [[x]]
            | p # ps \<Rightarrow> (x # p) # ps))"

text \<open>\<^verbatim>\<open>strings.ContainsRune(s, r)\<close> for a rune of one byte.\<close>

definition ContainsRune :: "string \<Rightarrow> char \<Rightarrow> bool" where
  "ContainsRune s r = (r \<in> set s)"

text \<open>
  Modelled from the spec: \<^verbatim>\<open>util.JoinV\<close>, the helper of package
  \<^verbatim>\<open>golang/internal/util\<close> that \<^verbatim>\<open>URIFromString\<close> calls and whose source
  is not among the files. The spec says of it: "every preceding segment joined by the
  path separator becomes host".
\<close>

fun JoinV :: "string \<Rightarrow> string list \<Rightarrow> string" where
  "JoinV sep [] = []"
| "JoinV sep [x] = x"
| "JoinV sep (x # y # ys) = x @ sep @ JoinV sep (y # ys)"

text \<open>
  \<^verbatim>\<open>URIFromString\<close>: the error returns come first, in the order of the source; the
  tag is the second piece; the name is the last segment of the first piece and the host
  the segments before it.
\<close>

definition URIFromString :: "string \<Rightarrow> image_error + URI" where
  "URIFromString imageName =
     (if imageName = [] then Inl EmptyError
      else
        let img = \<lparr>Host = [], Name = [], Tag = []\<rparr>;
            nameArr = Split CHR '':'' imageName
        in
          if length nameArr = 1 then Inl (InvalidURIError imageName)
          else if length nameArr > PartCountAfterSplitByColon then Inl MultiColonRegistryURIError
          else
            (case nameArr of
               [] \<Rightarrow> Inl IndexOutOfRange
             | first # rest \<Rightarrow>
                 let img =
                       (if length nameArr = PartCountAfterSplitByColon
                        then img\<lparr>Tag := hd rest\<rparr> else img)
                 in
                   if ContainsRune first CHR ''/'' then
                     let repoArr = Split CHR ''/'' first;
                         img = img\<lparr>Name := last repoArr\<rparr>;
                         repoArr = butlast repoArr;
                         img = img\<lparr>Host := JoinV ''/'' repoArr\<rparr>
                     in Inr img
                   else Inr (img\<lparr>Name := first\<rparr>)))"

text \<open>
  \<^verbatim>\<open>setDefaults\<close> takes the reference by pointer and assigns to its fields; the
  model returns the updated reference.
\<close>

definition setDefaults :: "URI \<Rightarrow> URI" where
  "setDefaults img =
     (let img = (if Host img = [] then img\<lparr>Host := ''docker.io/library''\<rparr> else img);
          img = (if Tag img = [] then img\<lparr>Tag := ''latest''\<rparr> else img)
      in img)"

text \<open>
  \<^verbatim>\<open>String\<close> and \<^verbatim>\<open>StringNoTag\<close> have a pointer receiver and call
  \<^verbatim>\<open>setDefaults\<close> on it, so each returns the text together with the receiver as the
  call leaves it.
\<close>

definition String :: "URI \<Rightarrow> string \<times> URI" where
  "String img =
     (let img = setDefaults img
      in (Host img @ ''/'' @ (Name img @ '':'' @ Tag img), img))"

definition StringNoTag :: "URI \<Rightarrow> string \<times> URI" where
  "StringNoTag img =
     (let img = setDefaults img
      in (Host img @ ''/'' @ Name img, img))"

section \<open>The stack orchestrator (package cli)\<close>

text \<open>
  The nine containers of the stack. The Go struct \<^verbatim>\<open>DyrectorioStack\<close> holds one
  container builder for each of them and the settings table \<^verbatim>\<open>Containers\<close>, which
  gives each its name, for Crux and CruxUI the flag \<^verbatim>\<open>Disabled\<close>, and for CruxUI
  the port \<^verbatim>\<open>CruxUIPort\<close>. The type of the table is declared outside the files; the
  model takes the settings of a component by the component's name in the struct.
\<close>

datatype Component =
    Traefik | Crux | CruxMigrate | CruxUI | Kratos | KratosMigrate
  | CruxPostgres | KratosPostgres | MailSlurper

record ContainerSettings =
  ContainerName :: string
  Disabled :: bool
  CruxUIPort :: nat

record DyrectorioStack =
  Containers :: "Component \<Rightarrow> ContainerSettings"

text \<open>A container as the runtime lists it (\<^verbatim>\<open>types.Container\<close>).\<close>

record Container =
  ID :: string
  Names :: "string list"

text \<open>What the runtime reports of a started one-shot job: its exit status, or an error of the wait.\<close>

datatype job_exit = Exited int | WaitFailed string

text \<open>
  The container runtime and the embedded template are outside the program. The model
  takes them as a parameter: a record of operations on a state \<open>'w\<close> of the runtime,
  each with the error result that the Go client returns (\<open>None\<close> is \<^verbatim>\<open>nil\<close>).
\<close>

record 'w Runtime =
  NewClientWithOpts :: "'w \<Rightarrow> string option"
  ContainerCreate :: "Component \<Rightarrow> 'w \<Rightarrow> 'w"
  ContainerStart :: "Component \<Rightarrow> 'w \<Rightarrow> string option \<times> 'w"
  ContainerWait :: "Component \<Rightarrow> 'w \<Rightarrow> job_exit \<times> 'w"
  RenderTemplate :: "string \<Rightarrow> nat \<Rightarrow> string \<Rightarrow> string + string"
  WriteContainerFile :: "string \<Rightarrow> string \<Rightarrow> string \<Rightarrow> 'w \<Rightarrow> string option \<times> 'w"
  ContainerList :: "string \<Rightarrow> 'w \<Rightarrow> string + Container list"
  ContainerStop :: "string \<Rightarrow> 'w \<Rightarrow> string option \<times> 'w"
  ContainerRemove :: "string \<Rightarrow> 'w \<Rightarrow> string option \<times> 'w"

text \<open>
  The operations the program invokes, in the order it invokes them.
  \<open>EvJobExit c n\<close>: the job \<open>c\<close> was waited for and exited with status \<open>n\<close>.
  \<open>EvJobFailed c err\<close>: \<^verbatim>\<open>StartWaitUntilExit\<close> of the job \<open>c\<close> returned the error \<open>err\<close>.
  \<open>EvGetContainerID name i\<close>: \<^verbatim>\<open>GetContainerID(name)\<close> returned \<open>i\<close>.
\<close>

datatype Event =
    EvCreate Component
  | EvStart Component
  | EvStartWaitUntilExit Component
  | EvJobExit Component int
  | EvJobFailed Component string
  | EvTraefikConfiguration string
  | EvGetContainerID string string
  | EvContainerStop string
  | EvContainerRemove string

text \<open>
  The state of a run: the runtime's state, the operations invoked so far, and whether
  the process has ended with \<^verbatim>\<open>log.Fatal\<close> (which logs and exits with status 1, so
  that no later statement runs).
\<close>

record 'w Sys =
  world :: 'w
  trace :: "Event list"
  exited :: "string option"

definition Fatal :: "string \<Rightarrow> 'w Sys \<Rightarrow> 'w Sys" where
  "Fatal msg s = s\<lparr>exited := Some msg\<rparr>"

text \<open>\<^verbatim>\<open>if err != nil { log.Fatal()... }\<close> after a call that returns an error.\<close>

definition orFatal :: "string option \<times> 'w Sys \<Rightarrow> 'w Sys" where
  "orFatal r = (case r of (None, s) \<Rightarrow> s | (Some err, s) \<Rightarrow> Fatal err s)"

text \<open>A sequence of statements: the next one runs only while the process has not exited.\<close>

fun run :: "('w Sys \<Rightarrow> 'w Sys) list \<Rightarrow> 'w Sys \<Rightarrow> 'w Sys" where
  "run [] s = s"
| "run (f # fs) s = (if exited s = None then run fs (f s) else s)"

text \<open>
  Modelled from the spec: the methods \<^verbatim>\<open>Create\<close>, \<^verbatim>\<open>Start\<close> and
  \<^verbatim>\<open>StartWaitUntilExit\<close> of the container builder (package
  \<^verbatim>\<open>golang/pkg/builder/container\<close>, not among the files). The spec: \<open>create\<close>
  "registers desired state with the runtime"; \<open>start\<close> moves the container to running;
  \<open>startAndWaitForExit\<close> "starts the container and blocks the calling flow until the
  runtime reports the container has exited, surfacing the exit status". So
  \<^verbatim>\<open>StartWaitUntilExit\<close> returns two results, as its call sites show: the exit status
  that the runtime reported, and an error when the start or the wait failed. A job that
  ran and exited gives its status, whatever it is, and no error. Of \<^verbatim>\<open>Start\<close> the
  model keeps the error result only.
\<close>

definition Create :: "'w Runtime \<Rightarrow> Component \<Rightarrow> 'w Sys \<Rightarrow> 'w Sys" where
  "Create rt c s = s\<lparr>world := ContainerCreate rt c (world s), trace := trace s @ [EvCreate c]\<rparr>"

definition Start :: "'w Runtime \<Rightarrow> Component \<Rightarrow> 'w Sys \<Rightarrow> string option \<times> 'w Sys" where
  "Start rt c s =
     (case ContainerStart rt c (world s) of
        (err, w) \<Rightarrow> (err, s\<lparr>world := w, trace := trace s @ [EvStart c]\<rparr>))"

definition StartWaitUntilExit ::
    "'w Runtime \<Rightarrow> Component \<Rightarrow> 'w Sys \<Rightarrow> (int option \<times> string option) \<times> 'w Sys" where
  "StartWaitUntilExit rt c s =
     (case ContainerStart rt c (world s) of
        (Some err, w) \<Rightarrow>
          ((None, Some err),
           s\<lparr>world := w, trace := trace s @ [EvStartWaitUntilExit c, EvJobFailed c err]\<rparr>)
      | (None, w) \<Rightarrow>
          (case ContainerWait rt c w of
             (WaitFailed err, w') \<Rightarrow>
               ((None, Some err),
                s\<lparr>world := w', trace := trace s @ [EvStartWaitUntilExit c, EvJobFailed c err]\<rparr>)
           | (Exited n, w') \<Rightarrow>
               ((Some n, None),
                s\<lparr>world := w', trace := trace s @ [EvStartWaitUntilExit c, EvJobExit c n]\<rparr>)))"

text \<open>
  \<^verbatim>\<open>_, err = ...\<close>: the caller drops the first result of the call and keeps the
  error.
\<close>

definition discardResult :: "('a \<times> string option) \<times> 'w Sys \<Rightarrow> string option \<times> 'w Sys" where
  "discardResult r = (case r of ((_, err), s) \<Rightarrow> (err, s))"

text \<open>
  \<^verbatim>\<open>TraefikConfiguration\<close>: a client, the rendered template, and the file written
  into the container; each failure is fatal. Reading, parsing and executing the embedded
  template are the one operation \<open>RenderTemplate\<close> of the parameter.
\<close>

definition TraefikConfiguration :: "'w Runtime \<Rightarrow> string \<Rightarrow> string \<Rightarrow> nat \<Rightarrow> 'w Sys \<Rightarrow> 'w Sys" where
  "TraefikConfiguration rt name internalHostDomain cruxuiport s =
     (let s = s\<lparr>trace := trace s @ [EvTraefikConfiguration name]\<rparr> in
      case NewClientWithOpts rt (world s) of
        Some err \<Rightarrow> Fatal err s
      | None \<Rightarrow>
          (case RenderTemplate rt ''crux-ui'' cruxuiport internalHostDomain of
             Inl err \<Rightarrow> Fatal err s
           | Inr result \<Rightarrow>
               (case WriteContainerFile rt name ''traefik.dev.yml'' result (world s) of
                  (Some err, w) \<Rightarrow> Fatal err (s\<lparr>world := w\<rparr>)
                | (None, w) \<Rightarrow> s\<lparr>world := w\<rparr>)))"

text \<open>\<^verbatim>\<open>StartContainers\<close>, statement by statement.\<close>

definition StartContainers :: "'w Runtime \<Rightarrow> DyrectorioStack \<Rightarrow> string \<Rightarrow> 'w Sys \<Rightarrow> 'w Sys" where
  "StartContainers rt containers internalHostDomain =
     run
      [\<lambda>s. orFatal (Start rt Traefik (Create rt Traefik s)),
       TraefikConfiguration rt (ContainerName (Containers containers Traefik))
         internalHostDomain (CruxUIPort (Containers containers CruxUI)),
       \<lambda>s. orFatal (Start rt CruxPostgres (Create rt CruxPostgres s)),
       \<lambda>s. orFatal (Start rt KratosPostgres (Create rt KratosPostgres s)),
       \<lambda>s. orFatal (discardResult (StartWaitUntilExit rt KratosMigrate (Create rt KratosMigrate s))),
       \<lambda>s. orFatal (Start rt Kratos (Create rt Kratos s)),
       \<lambda>s. if \<not> Disabled (Containers containers Crux) then
              run
               [\<lambda>s. orFatal (discardResult (StartWaitUntilExit rt CruxMigrate (Create rt CruxMigrate s))),
                \<lambda>s. orFatal (Start rt Crux (Create rt Crux s))] s
            else s,
       \<lambda>s. if \<not> Disabled (Containers containers CruxUI) then
              orFatal (Start rt CruxUI (Create rt CruxUI s))
            else s,
       \<lambda>s. orFatal (Start rt MailSlurper (Create rt MailSlurper s))]"

text \<open>
  \<^verbatim>\<open>GetContainerID\<close>: the containers whose name matches \<open>^name$\<close> are listed;
  none gives the empty ID, one gives its ID, more than one is fatal.
\<close>

definition GetContainerID :: "'w Runtime \<Rightarrow> string \<Rightarrow> 'w Sys \<Rightarrow> string \<times> 'w Sys" where
  "GetContainerID rt name s =
     (case NewClientWithOpts rt (world s) of
        Some err \<Rightarrow> ([], Fatal err s)
      | None \<Rightarrow>
          (case ContainerList rt (''^'' @ name @ ''$'') (world s) of
             Inl err \<Rightarrow> ([], Fatal err s)
           | Inr containers \<Rightarrow>
               (case containers of
                  [] \<Rightarrow> ([], s\<lparr>trace := trace s @ [EvGetContainerID name []]\<rparr>)
                | [c] \<Rightarrow> (ID c, s\<lparr>trace := trace s @ [EvGetContainerID name (ID c)]\<rparr>)
                | _ \<Rightarrow> ([], Fatal ''ambigous name'' s))))"

text \<open>
  \<^verbatim>\<open>CleanupContainer\<close>: stop, then remove. The duration \<open>10s\<close> always parses, so that
  error branch of the source cannot be taken.
\<close>

definition CleanupContainer :: "'w Runtime \<Rightarrow> string \<Rightarrow> 'w Sys \<Rightarrow> 'w Sys" where
  "CleanupContainer rt i =
     run
      [\<lambda>s. case NewClientWithOpts rt (world s) of Some err \<Rightarrow> Fatal err s | None \<Rightarrow> s,
       \<lambda>s. case ContainerStop rt i (world s) of
              (err, w) \<Rightarrow> orFatal (err, s\<lparr>world := w, trace := trace s @ [EvContainerStop i]\<rparr>),
       \<lambda>s. case ContainerRemove rt i (world s) of
              (err, w) \<Rightarrow> orFatal (err, s\<lparr>world := w, trace := trace s @ [EvContainerRemove i]\<rparr>)]"

text \<open>
  The statement that \<^verbatim>\<open>StopContainers\<close> repeats for each container:
  \<^verbatim>\<open>if containerID := name; GetContainerID(containerID) != "" { CleanupContainer(containerID) }\<close>.
  The variable holds the name, and the name is what \<^verbatim>\<open>CleanupContainer\<close> receives.
\<close>

definition cleanupIfPresent :: "'w Runtime \<Rightarrow> string \<Rightarrow> 'w Sys \<Rightarrow> 'w Sys" where
  "cleanupIfPresent rt containerID s =
     (case GetContainerID rt containerID s of
        (i, s') \<Rightarrow>
          if exited s' = None \<and> i \<noteq> [] then CleanupContainer rt containerID s' else s')"

definition StopContainers :: "'w Runtime \<Rightarrow> DyrectorioStack \<Rightarrow> 'w Sys \<Rightarrow> 'w Sys" where
  "StopContainers rt containers =
     run
      [cleanupIfPresent rt (ContainerName (Containers containers MailSlurper)),
       \<lambda>s. if \<not> Disabled (Containers containers CruxUI) then
              cleanupIfPresent rt (ContainerName (Containers containers CruxUI)) s
            else s,
       \<lambda>s. if \<not> Disabled (Containers containers Crux) then
              run
               [cleanupIfPresent rt (ContainerName (Containers containers Crux)),
                cleanupIfPresent rt (ContainerName (Containers containers CruxMigrate))] s
            else s,
       cleanupIfPresent rt (ContainerName (Containers containers KratosMigrate)),
       cleanupIfPresent rt (ContainerName (Containers containers Kratos)),
       cleanupIfPresent rt (ContainerName (Containers containers CruxPostgres)),
       cleanupIfPresent rt (ContainerName (Containers containers KratosPostgres)),
       cleanupIfPresent rt (ContainerName (Containers containers Traefik))]"

text \<open>A run starts with the process alive and nothing invoked.\<close>

definition start_of_run :: "'w \<Rightarrow> 'w Sys" where
  "start_of_run w = \<lparr>world = w, trace = [], exited = None\<rparr>"

text \<open>The name that the settings give a component.\<close>

definition nameOf :: "DyrectorioStack \<Rightarrow> Component \<Rightarrow> string" where
  "nameOf containers c = ContainerName (Containers containers c)"

text \<open>The containers created in a run, and the names resolved in it, in order.\<close>

fun created :: "Event list \<Rightarrow> Component list" where
  "created [] = []"
| "created (EvCreate c # es) = c # created es"
| "created (_ # es) = created es"

fun resolved :: "Event list \<Rightarrow> string list" where
  "resolved [] = []"
| "resolved (EvGetContainerID name i # es) = name # resolved es"
| "resolved (_ # es) = resolved es"

text \<open>
  The shape of a teardown: name by name, either the name resolves to the empty ID and
  nothing else is invoked for it, or it resolves to an ID and the container is stopped
  and then removed.
\<close>

fun teardown_of :: "string list \<Rightarrow> Event list \<Rightarrow> bool" where
  "teardown_of [] es = (es = [])"
| "teardown_of (name # names) (EvGetContainerID n [] # es) =
     (n = name \<and> teardown_of names es)"
| "teardown_of (name # names)
     (EvGetContainerID n (c # i) # EvContainerStop a # EvContainerRemove b # es) =
     (n = name \<and> a = name \<and> b = name \<and> teardown_of names es)"
| "teardown_of (name # names) _ = False"

text \<open>
  A runtime and a stack for examples: the runtime's state is the list of its containers,
  every operation but the wait for a job succeeds, the wait for a job gives what is given
  for the job, and a name matches the containers that carry it.
\<close>

definition example_runtime :: "(Component \<Rightarrow> job_exit) \<Rightarrow> (Container list) Runtime" where
  "example_runtime status =
     \<lparr>NewClientWithOpts = (\<lambda>w. None),
      ContainerCreate = (\<lambda>c w. w),
      ContainerStart = (\<lambda>c w. (None, w)),
      ContainerWait = (\<lambda>c w. (status c, w)),
      RenderTemplate = (\<lambda>service port host. Inr host),
      WriteContainerFile = (\<lambda>name file text w. (None, w)),
      ContainerList = (\<lambda>pat w. Inr (filter (\<lambda>c. pat \<in> set (map (\<lambda>n. ''^'' @ n @ ''$'') (Names c))) w)),
      ContainerStop = (\<lambda>i w. (None, w)),
      ContainerRemove = (\<lambda>i w. (None, filter (\<lambda>c. i \<notin> set (Names c)) w))\<rparr>"

fun example_name :: "Component \<Rightarrow> string" where
  "example_name Traefik = ''traefik''"
| "example_name Crux = ''crux''"
| "example_name CruxMigrate = ''crux-migrate''"
| "example_name CruxUI = ''crux-ui''"
| "example_name Kratos = ''kratos''"
| "example_name KratosMigrate = ''kratos-migrate''"
| "example_name CruxPostgres = ''crux-postgres''"
| "example_name KratosPostgres = ''kratos-postgres''"
| "example_name MailSlurper = ''mailslurper''"

definition exit_zero :: "Component \<Rightarrow> job_exit" where
  "exit_zero c = Exited 0"

definition exit_one :: "Component \<Rightarrow> job_exit" where
  "exit_one c = Exited 1"

definition wait_fails :: "Component \<Rightarrow> job_exit" where
  "wait_fails c = WaitFailed ''error waiting for the container''"

definition crux_wait_fails :: "Component \<Rightarrow> job_exit" where
  "crux_wait_fails c =
     (if c = CruxMigrate then WaitFailed ''error waiting for the container'' else Exited 0)"

definition example_stack :: DyrectorioStack where
  "example_stack =
     \<lparr>Containers = (\<lambda>c. \<lparr>ContainerName = example_name c, Disabled = False, CruxUIPort = 3000\<rparr>)\<rparr>"

definition example_containers :: "Container list" where
  "example_containers =
     map (\<lambda>c. \<lparr>ID = ''id-'' @ example_name c, Names = [example_name c]\<rparr>)
       [Traefik, Crux, CruxMigrate, CruxUI, Kratos, KratosMigrate, CruxPostgres,
        KratosPostgres, MailSlurper]"



section \<open>The configuration merge (container-merge)\<close>

text \<open>
  The data of a container configuration, as the fixtures of the repository's test of the
  merge show it (\<^verbatim>\<open>fullConfig\<close> and \<^verbatim>\<open>fullConcreteConfig\<close>). An entry of a
  collection carries an identifier. The string unions of TypeScript (deployment strategy,
  exposure, network mode, restart policy, volume type, log driver) are strings.
\<close>

record UniqueKey =
  uk_id :: string
  uk_key :: string

record UniqueKeyValue =
  kv_id :: string
  kv_key :: string
  kv_value :: string

record Port =
  pt_id :: string
  pt_internal :: int
  pt_external :: int

record PortRange =
  pr_id :: string
  pr_external :: "int \<times> int"
  pr_internal :: "int \<times> int"

record Volume =
  vol_id :: string
  vol_name :: string
  vol_path :: string
  vol_class :: string
  vol_size :: string
  vol_type :: string

record InitContainerVolume =
  iv_id :: string
  iv_name :: string
  iv_path :: string

record InitContainer =
  ic_id :: string
  ic_args :: "UniqueKey list"
  ic_command :: "UniqueKey list"
  ic_environment :: "UniqueKeyValue list"
  ic_image :: string
  ic_name :: string
  ic_useParentConfig :: bool
  ic_volumes :: "InitContainerVolume list"

text \<open>
  A secret as a base layer declares it, and as the concrete configuration carries it;
  \<open>sv_publicKey = None\<close> is \<^verbatim>\<open>publicKey: null\<close>.
\<close>

record UniqueSecretKey =
  sk_id :: string
  sk_key :: string
  sk_required :: bool

record UniqueSecretKeyValue =
  sv_id :: string
  sv_key :: string
  sv_required :: bool
  sv_encrypted :: bool
  sv_value :: string
  sv_publicKey :: "string option"

text \<open>
  Labels and annotations: one collection for each kind of resource. In the instance a
  partition can be absent (the test's instance gives \<^verbatim>\<open>labels.deployment\<close> only).
\<close>

record Marker =
  deployment :: "UniqueKeyValue list option"
  service :: "UniqueKeyValue list option"
  ingress :: "UniqueKeyValue list option"

text \<open>
  The nested objects. A layer may give a nested object in part (the spec: "an instance
  field explicitly present (even if itself a nested partial object)"), so every leaf is
  optional; \<open>None\<close> is \<^verbatim>\<open>undefined\<close>.
\<close>

record ConfigContainer =
  cc_image :: "string option"
  cc_keepFiles :: "bool option"
  cc_path :: "string option"
  cc_volume :: "string option"

record HealthCheckConfig =
  hc_livenessProbe :: "string option"
  hc_port :: "int option"
  hc_readinessProbe :: "string option"
  hc_startupProbe :: "string option"

record StorageConfig =
  sc_bucket :: "string option"
  sc_path :: "string option"

record Routing =
  ro_domain :: "string option"
  ro_path :: "string option"
  ro_stripPrefix :: "bool option"
  ro_uploadLimit :: "string option"

record LogConfig =
  lc_driver :: "string option"
  lc_options :: "UniqueKeyValue list option"

record Resource =
  rs_cpu :: "string option"
  rs_memory :: "string option"

record ResourceConfig =
  limits :: "Resource option"
  requests :: "Resource option"

text \<open>
  A configuration layer. Every field is optional (the instance of the test is
  \<^verbatim>\<open>{}\<close>, and the fixtures leave \<^verbatim>\<open>metrics\<close> and \<^verbatim>\<open>expectedState\<close>
  undefined). The layers differ in the type \<open>'s\<close> of their secrets only. The shapes of
  \<^verbatim>\<open>metrics\<close> and \<^verbatim>\<open>expectedState\<close> are declared outside the files; they are
  kept as opaque values.
\<close>

record 's ConfigData =
  name :: "string option"
  capabilities :: "UniqueKeyValue list option"
  deploymentStrategy :: "string option"
  workingDirectory :: "string option"
  expose :: "string option"
  networkMode :: "string option"
  proxyHeaders :: "bool option"
  restartPolicy :: "string option"
  tty :: "bool option"
  useLoadBalancer :: "bool option"
  annotations :: "Marker option"
  labels :: "Marker option"
  args :: "UniqueKey list option"
  commands :: "UniqueKey list option"
  configContainer :: "ConfigContainer option"
  customHeaders :: "UniqueKey list option"
  dockerLabels :: "UniqueKeyValue list option"
  environment :: "UniqueKeyValue list option"
  extraLBAnnotations :: "UniqueKeyValue list option"
  healthCheckConfig :: "HealthCheckConfig option"
  storageSet :: "bool option"
  storageId :: "string option"
  storageConfig :: "StorageConfig option"
  routing :: "Routing option"
  initContainers :: "InitContainer list option"
  logConfig :: "LogConfig option"
  networks :: "UniqueKey list option"
  portRanges :: "PortRange list option"
  ports :: "Port list option"
  resourceConfig :: "ResourceConfig option"
  secrets :: "'s list option"
  user :: "int option"
  volumes :: "Volume list option"
  metrics :: "string option"
  expectedState :: "string option"

type_synonym ContainerConfigData = "UniqueSecretKey ConfigData"

type_synonym ConcreteContainerConfigData = "UniqueSecretKeyValue ConfigData"

text \<open>The configuration \<^verbatim>\<open>{}\<close>.\<close>

definition emptyConfig :: "'s ConfigData" where
  "emptyConfig =
     \<lparr>
name = None,
      capabilities = None,
      deploymentStrategy = None,
      workingDirectory = None,
      expose = None,
      networkMode = None,
      proxyHeaders = None,
      restartPolicy = None,
      tty = None,
      useLoadBalancer = None,
      annotations = None,
      labels = None,
      args = None,
      commands = None,
      configContainer = None,
      customHeaders = None,
      dockerLabels = None,
      environment = None,
      extraLBAnnotations = None,
      healthCheckConfig = None,
      storageSet = None,
      storageId = None,
      storageConfig = None,
      routing = None,
      initContainers = None,
      logConfig = None,
      networks = None,
      portRanges = None,
      ports = None,
      resourceConfig = None,
      secrets = None,
      user = None,
      volumes = None,
      metrics = None,
      expectedState = None\<rparr>"

text \<open>
  Modelled from the spec: the function \<^verbatim>\<open>mergeConfigsWithConcreteConfig\<close> of
  \<^verbatim>\<open>container-merge.ts\<close> and its helpers, which are not among the files (only
  the test of the function is). The spec, section 4.2:
  "Layers are merged left-to-right (later layers override earlier scalar fields); the
  instance layer is merged last and takes precedence for every field it defines [...]: a
  field entirely absent from the instance leaves the prior layer's value untouched, but an
  instance field explicitly present (even if itself a nested partial object) merges
  recursively into the corresponding prior-layer field rather than replacing it
  wholesale."

  \<open>pick\<close> is that rule for a field that is taken whole (scalars and collections:
  "last-defined-wins"): the later value when it is defined, the earlier one otherwise.
\<close>

definition pick :: "'a option \<Rightarrow> 'a option \<Rightarrow> 'a option" where
  "pick later earlier = (case later of Some v \<Rightarrow> Some v | None \<Rightarrow> earlier)"

text \<open>
  Modelled from the spec: "Nested objects without identifiers (health-check config,
  resource config, routing, storage config, config-container): field-wise recursive
  merge, same last-defined-wins rule per leaf field." \<open>mergeNested\<close> applies a
  field-wise merge when both layers give the object; the log configuration, an object of
  a driver and options, is merged the same way.
\<close>

definition mergeNested :: "('a \<Rightarrow> 'a \<Rightarrow> 'a) \<Rightarrow> 'a option \<Rightarrow> 'a option \<Rightarrow> 'a option" where
  "mergeNested f later earlier =
     (case later of
        None \<Rightarrow> earlier
      | Some l \<Rightarrow> (case earlier of None \<Rightarrow> Some l | Some e \<Rightarrow> Some (f l e)))"

definition mergeConfigContainer :: "ConfigContainer \<Rightarrow> ConfigContainer \<Rightarrow> ConfigContainer" where
  "mergeConfigContainer later earlier =
     \<lparr>cc_image = pick (cc_image later) (cc_image earlier),
      cc_keepFiles = pick (cc_keepFiles later) (cc_keepFiles earlier),
      cc_path = pick (cc_path later) (cc_path earlier),
      cc_volume = pick (cc_volume later) (cc_volume earlier)\<rparr>"

definition mergeHealthCheckConfig :: "HealthCheckConfig \<Rightarrow> HealthCheckConfig \<Rightarrow> HealthCheckConfig" where
  "mergeHealthCheckConfig later earlier =
     \<lparr>hc_livenessProbe = pick (hc_livenessProbe later) (hc_livenessProbe earlier),
      hc_port = pick (hc_port later) (hc_port earlier),
      hc_readinessProbe = pick (hc_readinessProbe later) (hc_readinessProbe earlier),
      hc_startupProbe = pick (hc_startupProbe later) (hc_startupProbe earlier)\<rparr>"

definition mergeStorageConfig :: "StorageConfig \<Rightarrow> StorageConfig \<Rightarrow> StorageConfig" where
  "mergeStorageConfig later earlier =
     \<lparr>sc_bucket = pick (sc_bucket later) (sc_bucket earlier),
      sc_path = pick (sc_path later) (sc_path earlier)\<rparr>"

definition mergeRouting :: "Routing \<Rightarrow> Routing \<Rightarrow> Routing" where
  "mergeRouting later earlier =
     \<lparr>ro_domain = pick (ro_domain later) (ro_domain earlier),
      ro_path = pick (ro_path later) (ro_path earlier),
      ro_stripPrefix = pick (ro_stripPrefix later) (ro_stripPrefix earlier),
      ro_uploadLimit = pick (ro_uploadLimit later) (ro_uploadLimit earlier)\<rparr>"

definition mergeLogConfig :: "LogConfig \<Rightarrow> LogConfig \<Rightarrow> LogConfig" where
  "mergeLogConfig later earlier =
     \<lparr>lc_driver = pick (lc_driver later) (lc_driver earlier),
      lc_options = pick (lc_options later) (lc_options earlier)\<rparr>"

definition mergeResource :: "Resource \<Rightarrow> Resource \<Rightarrow> Resource" where
  "mergeResource later earlier =
     \<lparr>rs_cpu = pick (rs_cpu later) (rs_cpu earlier),
      rs_memory = pick (rs_memory later) (rs_memory earlier)\<rparr>"

definition mergeResourceConfig :: "ResourceConfig \<Rightarrow> ResourceConfig \<Rightarrow> ResourceConfig" where
  "mergeResourceConfig later earlier =
     \<lparr>limits = mergeNested mergeResource (limits later) (limits earlier),
      requests = mergeNested mergeResource (requests later) (requests earlier)\<rparr>"

text \<open>
  Modelled from the spec: "for labels/annotations, merging happens independently per
  resource-kind partition (deployment/service/ingress), and a partition absent from the
  instance is passed through unchanged from the base layer."
\<close>

definition mergeMarkers :: "Marker \<Rightarrow> Marker \<Rightarrow> Marker" where
  "mergeMarkers later earlier =
     \<lparr>deployment = pick (deployment later) (deployment earlier),
      service = pick (service later) (service earlier),
      ingress = pick (ingress later) (ingress earlier)\<rparr>"

text \<open>
  Modelled from the spec: the secrets. "for each secret identifier present in the base
  layer, if the instance (or an intermediate layer) supplies a matching identifier with
  resolved material, that material wins entirely (replace, not field merge); otherwise
  the concrete secret is synthesized with the base's id/key/required and the unresolved
  defaults" (\<^verbatim>\<open>encrypted: false\<close>, \<^verbatim>\<open>value: ""\<close>, \<^verbatim>\<open>publicKey: null\<close>). A
  base secret that the instance resolves is there as the instance's entry. The base
  secrets that the instance does not resolve come first, in the base's order, and the
  instance's entries follow as the instance gives them, so that an instance that resolves
  every secret gives the secrets of the result (the spec's override law: the result
  "equals \<open>concrete\<close> exactly").
\<close>

definition unresolved :: "UniqueSecretKey \<Rightarrow> UniqueSecretKeyValue" where
  "unresolved it =
     \<lparr>sv_id = sk_id it, sv_key = sk_key it, sv_required = sk_required it,
      sv_encrypted = False, sv_value = [], sv_publicKey = None\<rparr>"

definition mergeSecrets :: "UniqueSecretKeyValue list \<Rightarrow> UniqueSecretKey list \<Rightarrow> UniqueSecretKeyValue list" where
  "mergeSecrets instanceSecrets baseSecrets =
     map unresolved
       (filter (\<lambda>it. sk_id it \<notin> set (map sv_id instanceSecrets)) baseSecrets)
     @ instanceSecrets"

text \<open>\<^verbatim>\<open>xs ?? []\<close>: an undefined collection is the empty one.\<close>

definition orEmpty :: "'a list option \<Rightarrow> 'a list" where
  "orEmpty xs = (case xs of None \<Rightarrow> [] | Some ys \<Rightarrow> ys)"

text \<open>
  Modelled from the spec: one layer over the layers before it, field by field. A field
  that is taken whole follows \<open>pick\<close>; so does a collection whose entries carry
  identifiers. Of these the spec also says that entries of both layers coexist, but the
  repository's test of the function (cases "should use the concrete variables when
  available" and "should use the instance only when available") expects a collection
  that the instance defines to hold the instance's entries alone, and the override law
  of the spec's section 8 says the same; the model follows the test. The secrets of the
  result are given by the caller.
\<close>

definition mergeConfigs :: "'a ConfigData \<Rightarrow> 'b ConfigData \<Rightarrow> 'c list option \<Rightarrow> 'c ConfigData" where
  "mergeConfigs earlier later resultSecrets =
     \<lparr>
name = pick (name later) (name earlier),
      capabilities = pick (capabilities later) (capabilities earlier),
      deploymentStrategy = pick (deploymentStrategy later) (deploymentStrategy earlier),
      workingDirectory = pick (workingDirectory later) (workingDirectory earlier),
      expose = pick (expose later) (expose earlier),
      networkMode = pick (networkMode later) (networkMode earlier),
      proxyHeaders = pick (proxyHeaders later) (proxyHeaders earlier),
      restartPolicy = pick (restartPolicy later) (restartPolicy earlier),
      tty = pick (tty later) (tty earlier),
      useLoadBalancer = pick (useLoadBalancer later) (useLoadBalancer earlier),
      annotations = mergeNested mergeMarkers (annotations later) (annotations earlier),
      labels = mergeNested mergeMarkers (labels later) (labels earlier),
      args = pick (args later) (args earlier),
      commands = pick (commands later) (commands earlier),
      configContainer = mergeNested mergeConfigContainer (configContainer later) (configContainer earlier),
      customHeaders = pick (customHeaders later) (customHeaders earlier),
      dockerLabels = pick (dockerLabels later) (dockerLabels earlier),
      environment = pick (environment later) (environment earlier),
      extraLBAnnotations = pick (extraLBAnnotations later) (extraLBAnnotations earlier),
      healthCheckConfig = mergeNested mergeHealthCheckConfig (healthCheckConfig later) (healthCheckConfig earlier),
      storageSet = pick (storageSet later) (storageSet earlier),
      storageId = pick (storageId later) (storageId earlier),
      storageConfig = mergeNested mergeStorageConfig (storageConfig later) (storageConfig earlier),
      routing = mergeNested mergeRouting (routing later) (routing earlier),
      initContainers = pick (initContainers later) (initContainers earlier),
      logConfig = mergeNested mergeLogConfig (logConfig later) (logConfig earlier),
      networks = pick (networks later) (networks earlier),
      portRanges = pick (portRanges later) (portRanges earlier),
      ports = pick (ports later) (ports earlier),
      resourceConfig = mergeNested mergeResourceConfig (resourceConfig later) (resourceConfig earlier),
      secrets = resultSecrets,
      user = pick (user later) (user earlier),
      volumes = pick (volumes later) (volumes earlier),
      metrics = pick (metrics later) (metrics earlier),
      expectedState = pick (expectedState later) (expectedState earlier)\<rparr>"

text \<open>
  Modelled from the spec: the layers are merged left to right, starting from the empty
  configuration; between two base layers the secrets are taken whole, like every other
  collection.
\<close>

definition squashConfigs :: "ContainerConfigData \<Rightarrow> ContainerConfigData \<Rightarrow> ContainerConfigData" where
  "squashConfigs earlier later = mergeConfigs earlier later (pick (secrets later) (secrets earlier))"

text \<open>
  Modelled from the spec: \<^verbatim>\<open>merge(layers, instance)\<close>. The instance is merged last,
  and the secrets of the result are those of the squashed layers, each resolved by the
  instance or left unresolved.
\<close>

definition mergeConfigsWithConcreteConfig ::
    "ContainerConfigData list \<Rightarrow> ConcreteContainerConfigData \<Rightarrow> ConcreteContainerConfigData" where
  "mergeConfigsWithConcreteConfig configs concrete =
     (let squashed = foldl squashConfigs emptyConfig configs
      in mergeConfigs squashed concrete
           (Some (mergeSecrets (orEmpty (secrets concrete)) (orEmpty (secrets squashed)))))"

text \<open>
  A configuration that defines every field: every field of the layer, every partition of
  its labels and annotations, and every leaf of its nested objects.
\<close>

definition definesEveryField :: "'s ConfigData \<Rightarrow> bool" where
  "definesEveryField c =
     (
name c \<noteq> None
      \<and> capabilities c \<noteq> None
      \<and> deploymentStrategy c \<noteq> None
      \<and> workingDirectory c \<noteq> None
      \<and> expose c \<noteq> None
      \<and> networkMode c \<noteq> None
      \<and> proxyHeaders c \<noteq> None
      \<and> restartPolicy c \<noteq> None
      \<and> tty c \<noteq> None
      \<and> useLoadBalancer c \<noteq> None
      \<and> annotations c \<noteq> None
      \<and> labels c \<noteq> None
      \<and> args c \<noteq> None
      \<and> commands c \<noteq> None
      \<and> configContainer c \<noteq> None
      \<and> customHeaders c \<noteq> None
      \<and> dockerLabels c \<noteq> None
      \<and> environment c \<noteq> None
      \<and> extraLBAnnotations c \<noteq> None
      \<and> healthCheckConfig c \<noteq> None
      \<and> storageSet c \<noteq> None
      \<and> storageId c \<noteq> None
      \<and> storageConfig c \<noteq> None
      \<and> routing c \<noteq> None
      \<and> initContainers c \<noteq> None
      \<and> logConfig c \<noteq> None
      \<and> networks c \<noteq> None
      \<and> portRanges c \<noteq> None
      \<and> ports c \<noteq> None
      \<and> resourceConfig c \<noteq> None
      \<and> secrets c \<noteq> None
      \<and> user c \<noteq> None
      \<and> volumes c \<noteq> None
      \<and> metrics c \<noteq> None
      \<and> expectedState c \<noteq> None
      \<and> (case annotations c of None \<Rightarrow> False
          | Some m \<Rightarrow> deployment m \<noteq> None \<and> service m \<noteq> None \<and> ingress m \<noteq> None)
      \<and> (case labels c of None \<Rightarrow> False
          | Some m \<Rightarrow> deployment m \<noteq> None \<and> service m \<noteq> None \<and> ingress m \<noteq> None)
      \<and> (case configContainer c of None \<Rightarrow> False
          | Some x \<Rightarrow> cc_image x \<noteq> None \<and> cc_keepFiles x \<noteq> None \<and> cc_path x \<noteq> None
              \<and> cc_volume x \<noteq> None)
      \<and> (case healthCheckConfig c of None \<Rightarrow> False
          | Some x \<Rightarrow> hc_livenessProbe x \<noteq> None \<and> hc_port x \<noteq> None
              \<and> hc_readinessProbe x \<noteq> None \<and> hc_startupProbe x \<noteq> None)
      \<and> (case storageConfig c of None \<Rightarrow> False
          | Some x \<Rightarrow> sc_bucket x \<noteq> None \<and> sc_path x \<noteq> None)
      \<and> (case routing c of None \<Rightarrow> False
          | Some x \<Rightarrow> ro_domain x \<noteq> None \<and> ro_path x \<noteq> None \<and> ro_stripPrefix x \<noteq> None
              \<and> ro_uploadLimit x \<noteq> None)
      \<and> (case logConfig c of None \<Rightarrow> False
          | Some x \<Rightarrow> lc_driver x \<noteq> None \<and> lc_options x \<noteq> None)
      \<and> (case resourceConfig c of None \<Rightarrow> False
          | Some x \<Rightarrow>
              (case limits x of None \<Rightarrow> False
               | Some r \<Rightarrow> rs_cpu r \<noteq> None \<and> rs_memory r \<noteq> None)
              \<and> (case requests x of None \<Rightarrow> False
                  | Some r \<Rightarrow> rs_cpu r \<noteq> None \<and> rs_memory r \<noteq> None)))"


text \<open>
  An instance that defines every field that matters over a base layer: it defines every
  field that the base layer defines, it defines its secrets, and a nested object or a set
  of labels or annotations that it gives is given in full. An instance that defines every
  field is one of these over every base layer; so is \<^verbatim>\<open>fullConcreteConfig\<close> over
  \<^verbatim>\<open>fullConfig\<close>, where both leave \<^verbatim>\<open>metrics\<close> and \<^verbatim>\<open>expectedState\<close>
  undefined.
\<close>

definition definesEveryFieldOf :: "'a ConfigData \<Rightarrow> 'b ConfigData \<Rightarrow> bool" where
  "definesEveryFieldOf base concrete =
     ((name concrete \<noteq> None \<or> name base = None)
      \<and> (capabilities concrete \<noteq> None \<or> capabilities base = None)
      \<and> (deploymentStrategy concrete \<noteq> None \<or> deploymentStrategy base = None)
      \<and> (workingDirectory concrete \<noteq> None \<or> workingDirectory base = None)
      \<and> (expose concrete \<noteq> None \<or> expose base = None)
      \<and> (networkMode concrete \<noteq> None \<or> networkMode base = None)
      \<and> (proxyHeaders concrete \<noteq> None \<or> proxyHeaders base = None)
      \<and> (restartPolicy concrete \<noteq> None \<or> restartPolicy base = None)
      \<and> (tty concrete \<noteq> None \<or> tty base = None)
      \<and> (useLoadBalancer concrete \<noteq> None \<or> useLoadBalancer base = None)
      \<and> (args concrete \<noteq> None \<or> args base = None)
      \<and> (commands concrete \<noteq> None \<or> commands base = None)
      \<and> (customHeaders concrete \<noteq> None \<or> customHeaders base = None)
      \<and> (dockerLabels concrete \<noteq> None \<or> dockerLabels base = None)
      \<and> (environment concrete \<noteq> None \<or> environment base = None)
      \<and> (extraLBAnnotations concrete \<noteq> None \<or> extraLBAnnotations base = None)
      \<and> (storageSet concrete \<noteq> None \<or> storageSet base = None)
      \<and> (storageId concrete \<noteq> None \<or> storageId base = None)
      \<and> (initContainers concrete \<noteq> None \<or> initContainers base = None)
      \<and> (networks concrete \<noteq> None \<or> networks base = None)
      \<and> (portRanges concrete \<noteq> None \<or> portRanges base = None)
      \<and> (ports concrete \<noteq> None \<or> ports base = None)
      \<and> secrets concrete \<noteq> None
      \<and> (user concrete \<noteq> None \<or> user base = None)
      \<and> (volumes concrete \<noteq> None \<or> volumes base = None)
      \<and> (metrics concrete \<noteq> None \<or> metrics base = None)
      \<and> (expectedState concrete \<noteq> None \<or> expectedState base = None)
      \<and> (case annotations concrete of None \<Rightarrow> annotations base = None
          | Some m \<Rightarrow> deployment m \<noteq> None \<and> service m \<noteq> None \<and> ingress m \<noteq> None)
      \<and> (case labels concrete of None \<Rightarrow> labels base = None
          | Some m \<Rightarrow> deployment m \<noteq> None \<and> service m \<noteq> None \<and> ingress m \<noteq> None)
      \<and> (case configContainer concrete of None \<Rightarrow> configContainer base = None
          | Some x \<Rightarrow> cc_image x \<noteq> None \<and> cc_keepFiles x \<noteq> None \<and> cc_path x \<noteq> None
              \<and> cc_volume x \<noteq> None)
      \<and> (case healthCheckConfig concrete of None \<Rightarrow> healthCheckConfig base = None
          | Some x \<Rightarrow> hc_livenessProbe x \<noteq> None \<and> hc_port x \<noteq> None
              \<and> hc_readinessProbe x \<noteq> None \<and> hc_startupProbe x \<noteq> None)
      \<and> (case storageConfig concrete of None \<Rightarrow> storageConfig base = None
          | Some x \<Rightarrow> sc_bucket x \<noteq> None \<and> sc_path x \<noteq> None)
      \<and> (case routing concrete of None \<Rightarrow> routing base = None
          | Some x \<Rightarrow> ro_domain x \<noteq> None \<and> ro_path x \<noteq> None \<and> ro_stripPrefix x \<noteq> None
              \<and> ro_uploadLimit x \<noteq> None)
      \<and> (case logConfig concrete of None \<Rightarrow> logConfig base = None
          | Some x \<Rightarrow> lc_driver x \<noteq> None \<and> lc_options x \<noteq> None)
      \<and> (case resourceConfig concrete of None \<Rightarrow> resourceConfig base = None
          | Some x \<Rightarrow>
              (case limits x of None \<Rightarrow> False
               | Some r \<Rightarrow> rs_cpu r \<noteq> None \<and> rs_memory r \<noteq> None)
              \<and> (case requests x of None \<Rightarrow> False
                  | Some r \<Rightarrow> rs_cpu r \<noteq> None \<and> rs_memory r \<noteq> None)))"

text \<open>The fixtures of the repository's test of the merge, field by field.\<close>

definition fullConfig :: ContainerConfigData where
  "fullConfig =
     \<lparr>name = Some ''img'',
      capabilities = Some [],
      deploymentStrategy = Some ''recreate'',
      workingDirectory = Some ''/app'',
      expose = Some ''expose'',
      networkMode = Some ''bridge'',
      proxyHeaders = Some False,
      restartPolicy = Some ''no'',
      tty = Some False,
      useLoadBalancer = Some False,
      annotations = Some \<lparr>deployment = Some [\<lparr>kv_id = ''annotations.deployment'', kv_key = ''annotations.deployment'', kv_value = ''annotations.deployment''\<rparr>],
          service = Some [\<lparr>kv_id = ''annotations.service'', kv_key = ''annotations.service'', kv_value = ''annotations.service''\<rparr>],
          ingress = Some [\<lparr>kv_id = ''annotations.ingress'', kv_key = ''annotations.ingress'', kv_value = ''annotations.ingress''\<rparr>]\<rparr>,
      labels = Some \<lparr>deployment = Some [\<lparr>kv_id = ''labels.deployment'', kv_key = ''labels.deployment'', kv_value = ''labels.deployment''\<rparr>],
          service = Some [\<lparr>kv_id = ''labels.service'', kv_key = ''labels.service'', kv_value = ''labels.service''\<rparr>],
          ingress = Some [\<lparr>kv_id = ''labels.ingress'', kv_key = ''labels.ingress'', kv_value = ''labels.ingress''\<rparr>]\<rparr>,
      args = Some [\<lparr>uk_id = ''arg1'', uk_key = ''arg1''\<rparr>],
      commands = Some [\<lparr>uk_id = ''command1'', uk_key = ''command1''\<rparr>],
      configContainer = Some \<lparr>cc_image = Some ''configCont'', cc_keepFiles = Some False,
          cc_path = Some ''configCont'', cc_volume = Some ''configCont''\<rparr>,
      customHeaders = Some [\<lparr>uk_id = ''customHead'', uk_key = ''customHead''\<rparr>],
      dockerLabels = Some [\<lparr>kv_id = ''dockerLabel1'', kv_key = ''dockerLabel1'', kv_value = ''dockerLabel1''\<rparr>],
      environment = Some [\<lparr>kv_id = ''env1'', kv_key = ''env1'', kv_value = ''env1''\<rparr>],
      extraLBAnnotations = Some [\<lparr>kv_id = ''lbAnn1'', kv_key = ''lbAnn1'', kv_value = ''lbAnn1''\<rparr>],
      healthCheckConfig = Some \<lparr>hc_livenessProbe = Some ''healthCheckConf'', hc_port = Some 1,
          hc_readinessProbe = Some ''healthCheckConf'',
          hc_startupProbe = Some ''healthCheckConf''\<rparr>,
      storageSet = Some True,
      storageId = Some ''storageId'',
      storageConfig = Some \<lparr>sc_bucket = Some ''storageBucket'', sc_path = Some ''storagePath''\<rparr>,
      routing = Some \<lparr>ro_domain = Some ''domain'', ro_path = Some ''path'',
          ro_stripPrefix = Some True, ro_uploadLimit = Some ''uploadLimit''\<rparr>,
      initContainers = Some
          [\<lparr>ic_id = ''initCont1'', ic_args = [\<lparr>uk_id = ''initCont1Args'', uk_key = ''initCont1Args''\<rparr>],
            ic_command = [\<lparr>uk_id = ''initCont1Command'', uk_key = ''initCont1Command''\<rparr>],
            ic_environment = [\<lparr>kv_id = ''initCont1Env'', kv_key = ''initCont1Env'', kv_value = ''initCont1Env''\<rparr>],
            ic_image = ''initCont1'', ic_name = ''initCont1'', ic_useParentConfig = False,
            ic_volumes = [\<lparr>iv_id = ''initCont1Vol1'', iv_name = ''initCont1Vol1'',
              iv_path = ''initCont1Vol1''\<rparr>]\<rparr>],
      logConfig = Some \<lparr>lc_driver = Some ''awslogs'', lc_options = Some [\<lparr>kv_id = ''logConfOps'', kv_key = ''logConfOps'', kv_value = ''logConfOps''\<rparr>]\<rparr>,
      networks = Some [\<lparr>uk_id = ''network1'', uk_key = ''network1''\<rparr>],
      portRanges = Some [\<lparr>pr_id = ''portRange1'', pr_external = (1, 2), pr_internal = (1, 2)\<rparr>],
      ports = Some [\<lparr>pt_id = ''port1'', pt_internal = 1, pt_external = 1\<rparr>],
      resourceConfig = Some
          \<lparr>limits = Some \<lparr>rs_cpu = Some ''limitCpu'', rs_memory = Some ''limitMemory''\<rparr>,
           requests = Some \<lparr>rs_cpu = Some ''requestCpu'', rs_memory = Some ''requestMemory''\<rparr>\<rparr>,
      secrets = Some [\<lparr>sk_id = ''secret1'', sk_key = ''secret1'', sk_required = False\<rparr>],
      user = Some 1,
      volumes = Some [\<lparr>vol_id = ''vol1'', vol_name = ''vol1'', vol_path = ''vol1'',
          vol_class = ''vol1'', vol_size = ''vol1'', vol_type = ''mem''\<rparr>],
      metrics = None,
      expectedState = None\<rparr>"

definition fullConcreteConfig :: ConcreteContainerConfigData where
  "fullConcreteConfig =
     \<lparr>name = Some ''instance.img'',
      capabilities = Some [],
      deploymentStrategy = Some ''recreate'',
      workingDirectory = Some ''/app'',
      expose = Some ''exposeWithTls'',
      networkMode = Some ''host'',
      proxyHeaders = Some True,
      restartPolicy = Some ''onFailure'',
      tty = Some True,
      useLoadBalancer = Some True,
      annotations = Some \<lparr>deployment = Some [\<lparr>kv_id = ''instance.annotations.deployment'', kv_key = ''instance.annotations.deployment'', kv_value = ''instance.annotations.deployment''\<rparr>],
          service = Some [\<lparr>kv_id = ''instance.annotations.service'', kv_key = ''instance.annotations.service'', kv_value = ''instance.annotations.service''\<rparr>],
          ingress = Some [\<lparr>kv_id = ''instance.annotations.ingress'', kv_key = ''instance.annotations.ingress'', kv_value = ''instance.annotations.ingress''\<rparr>]\<rparr>,
      labels = Some \<lparr>deployment = Some [\<lparr>kv_id = ''instance.labels.deployment'', kv_key = ''instance.labels.deployment'', kv_value = ''instance.labels.deployment''\<rparr>],
          service = Some [\<lparr>kv_id = ''instance.labels.service'', kv_key = ''instance.labels.service'', kv_value = ''instance.labels.service''\<rparr>],
          ingress = Some [\<lparr>kv_id = ''instance.labels.ingress'', kv_key = ''instance.labels.ingress'', kv_value = ''instance.labels.ingress''\<rparr>]\<rparr>,
      args = Some [\<lparr>uk_id = ''instance.arg1'', uk_key = ''instance.arg1''\<rparr>],
      commands = Some [\<lparr>uk_id = ''instance.command1'', uk_key = ''instance.command1''\<rparr>],
      configContainer = Some \<lparr>cc_image = Some ''instance.configCont'', cc_keepFiles = Some True,
          cc_path = Some ''instance.configCont'', cc_volume = Some ''instance.configCont''\<rparr>,
      customHeaders = Some [\<lparr>uk_id = ''instance.customHead'', uk_key = ''instance.customHead''\<rparr>],
      dockerLabels = Some [\<lparr>kv_id = ''instance.dockerLabel1'', kv_key = ''instance.dockerLabel1'', kv_value = ''instance.dockerLabel1''\<rparr>],
      environment = Some [\<lparr>kv_id = ''instance.env1'', kv_key = ''instance.env1'', kv_value = ''instance.env1''\<rparr>],
      extraLBAnnotations = Some [\<lparr>kv_id = ''instance.lbAnn1'', kv_key = ''instance.lbAnn1'', kv_value = ''instance.lbAnn1''\<rparr>],
      healthCheckConfig = Some \<lparr>hc_livenessProbe = Some ''instance.healthCheckConf'', hc_port = Some 1,
          hc_readinessProbe = Some ''instance.healthCheckConf'',
          hc_startupProbe = Some ''instance.healthCheckConf''\<rparr>,
      storageSet = Some True,
      storageId = Some ''instance.storageId'',
      storageConfig = Some \<lparr>sc_bucket = Some ''instance.storageBucket'', sc_path = Some ''instance.storagePath''\<rparr>,
      routing = Some \<lparr>ro_domain = Some ''instance.domain'', ro_path = Some ''instance.path'',
          ro_stripPrefix = Some True, ro_uploadLimit = Some ''instance.uploadLimit''\<rparr>,
      initContainers = Some
          [\<lparr>ic_id = ''instance.initCont1'', ic_args = [\<lparr>uk_id = ''instance.initCont1Args'', uk_key = ''instance.initCont1Args''\<rparr>],
            ic_command = [\<lparr>uk_id = ''instance.initCont1Command'', uk_key = ''instance.initCont1Command''\<rparr>],
            ic_environment = [\<lparr>kv_id = ''instance.initCont1Env'', kv_key = ''instance.initCont1Env'', kv_value = ''instance.initCont1Env''\<rparr>],
            ic_image = ''instance.initCont1'', ic_name = ''instance.initCont1'', ic_useParentConfig = True,
            ic_volumes = [\<lparr>iv_id = ''instance.initCont1Vol1'', iv_name = ''instance.initCont1Vol1'',
              iv_path = ''instance.initCont1Vol1''\<rparr>]\<rparr>],
      logConfig = Some \<lparr>lc_driver = Some ''gcplogs'', lc_options = Some [\<lparr>kv_id = ''instance.logConfOps'', kv_key = ''instance.logConfOps'', kv_value = ''instance.logConfOps''\<rparr>]\<rparr>,
      networks = Some [\<lparr>uk_id = ''instance.network1'', uk_key = ''instance.network1''\<rparr>],
      portRanges = Some [\<lparr>pr_id = ''instance.portRange1'', pr_external = (10, 20), pr_internal = (10, 20)\<rparr>],
      ports = Some [\<lparr>pt_id = ''instance.port1'', pt_internal = 10, pt_external = 10\<rparr>],
      resourceConfig = Some
          \<lparr>limits = Some \<lparr>rs_cpu = Some ''instance.limitCpu'', rs_memory = Some ''instance.limitMemory''\<rparr>,
           requests = Some \<lparr>rs_cpu = Some ''instance.requestCpu'', rs_memory = Some ''instance.requestMemory''\<rparr>\<rparr>,
      secrets = Some [\<lparr>sv_id = ''secret1'', sv_key = ''instance.secret1'', sv_required = False,
          sv_encrypted = True, sv_value = ''instance.secret1.publicKey'',
          sv_publicKey = Some ''instance.secret1.publicKey''\<rparr>],
      user = Some 1,
      volumes = Some [\<lparr>vol_id = ''instance.vol1'', vol_name = ''instance.vol1'', vol_path = ''instance.vol1'',
          vol_class = ''instance.vol1'', vol_size = ''instance.vol1'', vol_type = ''rwo''\<rparr>],
      metrics = None,
      expectedState = None\<rparr>"

text \<open>The instance of the test case "should use the instance only when available".\<close>

definition partialInstance :: ConcreteContainerConfigData where
  "partialInstance =
     emptyConfig
      \<lparr>ports := ports fullConcreteConfig,
       labels := Some \<lparr>deployment = Some [\<lparr>kv_id = ''instance.labels.deployment'', kv_key = ''instance.labels.deployment'', kv_value = ''instance.labels.deployment''\<rparr>],
          service = None, ingress = None\<rparr>,
       annotations := Some \<lparr>deployment = None,
          service = Some [\<lparr>kv_id = ''instance.annotations.service'', kv_key = ''instance.annotations.service'', kv_value = ''instance.annotations.service''\<rparr>],
          ingress = None\<rparr>\<rparr>"

section \<open>Facts about splitting and joining\<close>

lemma Split_not_Nil: "Split c s \<noteq> []"
  by (induction s) (auto split: list.splits)

lemma Split_length: "length (Split c s) = Suc (count_list s c)"
  by (induction s) (auto split: list.splits simp: Split_not_Nil)

lemma Split_no_sep: "c \<notin> set s \<Longrightarrow> Split c s = [s]"
  by (induction s) auto

lemma Split_append_sep: "Split c (a @ c # b) = Split c a @ Split c b"
proof (induction a)
  case Nil
  show ?case by simp
next
  case (Cons x a)
  obtain p ps where ps: "Split c a = p # ps"
    using Split_not_Nil [of c a] by (cases "Split c a") auto
  with Cons show ?case by simp
qed

lemma JoinV_Split: "JoinV [c] (Split c s) = s"
proof (induction s)
  case Nil
  show ?case by simp
next
  case (Cons x s)
  obtain p ps where ps: "Split c s = p # ps"
    using Split_not_Nil [of c s] by (cases "Split c s") auto
  show ?case
  proof (cases "x = c")
    case True
    with Cons ps show ?thesis by simp
  next
    case False
    with Cons ps show ?thesis by (cases ps) auto
  qed
qed

lemma count_list_0_iff: "count_list s c = 0 \<longleftrightarrow> c \<notin> set s"
  by (induction s) auto

lemma Split_one_sep:
  assumes "c \<notin> set a" and "c \<notin> set b"
  shows "Split c (a @ c # b) = [a, b]"
  using assms by (simp add: Split_append_sep Split_no_sep)

lemma Split_path:
  assumes "c \<notin> set b"
  shows "last (Split c (a @ c # b)) = b" and "butlast (Split c (a @ c # b)) = Split c a"
  using assms by (simp_all add: Split_append_sep Split_no_sep)

section \<open>Parsing: the error cases\<close>

text \<open>
  Claim C7. \<^verbatim>\<open>URIFromString\<close> fails on exactly three shapes of input: on the empty
  string with the empty-reference error; on a (non-empty) string without a colon with the
  missing-tag error, which carries the input; on a string with more than one colon with
  the multi-colon error. Every other input, that is every string with exactly one colon,
  gives a parsed reference and no error.
\<close>

theorem URIFromString_fails_exactly:
  "(if s = [] then URIFromString s = Inl EmptyError
    else if count_list s CHR '':'' = 0 then URIFromString s = Inl (InvalidURIError s)
    else if 1 < count_list s CHR '':'' then URIFromString s = Inl MultiColonRegistryURIError
    else (\<exists>u. URIFromString s = Inr u))"
proof -
  obtain p ps where ps: "Split CHR '':'' s = p # ps"
    using Split_not_Nil [of "CHR '':''" s] by (cases "Split CHR '':'' s") auto
  have len: "length (Split CHR '':'' s) = Suc (count_list s CHR '':'')"
    by (rule Split_length)
  show ?thesis
    using ps len
    by (auto simp: URIFromString_def PartCountAfterSplitByColon_def Let_def)
qed

section \<open>Parsing and formatting\<close>

text \<open>
  Claim C8. For an input \<open>host/name:tag\<close> with a non-empty host path, a non-empty
  final segment, a non-empty tag and its only colon before the tag, parsing succeeds,
  \<^verbatim>\<open>String\<close> of the parsed reference is the input, character for character, and
  \<^verbatim>\<open>StringNoTag\<close> of it is the input without its \<open>:tag\<close> suffix.
\<close>

theorem parse_then_format:
  assumes "host \<noteq> []" and "CHR '':'' \<notin> set host"
    and "nm \<noteq> []" and "CHR '':'' \<notin> set nm" and "CHR ''/'' \<notin> set nm"
    and "tag \<noteq> []" and "CHR '':'' \<notin> set tag"
  shows "\<exists>u. URIFromString (host @ ''/'' @ nm @ '':'' @ tag) = Inr u
           \<and> fst (String u) = host @ ''/'' @ nm @ '':'' @ tag
           \<and> fst (StringNoTag u) = host @ ''/'' @ nm"
proof -
  let ?repo = "host @ CHR ''/'' # nm"
  have colon: "CHR '':'' \<notin> set ?repo"
    using assms by simp
  have parts: "Split CHR '':'' (?repo @ CHR '':'' # tag) = [?repo, tag]"
    using colon assms(7) by (rule Split_one_sep)
  have segs: "last (Split CHR ''/'' ?repo) = nm"
    "butlast (Split CHR ''/'' ?repo) = Split CHR ''/'' host"
    using assms(5) by (rule Split_path)+
  have host: "JoinV ''/'' (Split CHR ''/'' host) = host"
    by (rule JoinV_Split)
  have parsed: "URIFromString (?repo @ CHR '':'' # tag) = Inr \<lparr>Host = host, Name = nm, Tag = tag\<rparr>"
    using parts segs host
    by (simp add: URIFromString_def PartCountAfterSplitByColon_def ContainsRune_def Let_def)
  have "fst (String \<lparr>Host = host, Name = nm, Tag = tag\<rparr>) = host @ ''/'' @ nm @ '':'' @ tag"
    "fst (StringNoTag \<lparr>Host = host, Name = nm, Tag = tag\<rparr>) = host @ ''/'' @ nm"
    using assms(1,6) by (simp_all add: String_def StringNoTag_def setDefaults_def)
  with parsed show ?thesis by simp
qed

theorem parse_then_format_witness:
  "\<exists>u. URIFromString ''registry.example.com/team/app:1.2.3'' = Inr u
      \<and> fst (String u) = ''registry.example.com/team/app:1.2.3''
      \<and> fst (StringNoTag u) = ''registry.example.com/team/app''"
  using parse_then_format [of "''registry.example.com/team''" "''app''" "''1.2.3''"]
  by simp

section \<open>Defaults\<close>

text \<open>
  Claim C9, as the code has it. Formatting writes the defaults into the reference:
  after \<^verbatim>\<open>String\<close> or \<^verbatim>\<open>StringNoTag\<close>, an empty stored host has become
  \<open>docker.io/library\<close> and an empty stored tag \<open>latest\<close>; a non-empty host, a
  non-empty tag and the name are as they were.
\<close>

theorem format_stores_defaults:
  "snd (String u) =
     u\<lparr>Host := (if Host u = [] then ''docker.io/library'' else Host u),
       Tag := (if Tag u = [] then ''latest'' else Tag u)\<rparr>
   \<and> snd (StringNoTag u) =
     u\<lparr>Host := (if Host u = [] then ''docker.io/library'' else Host u),
       Tag := (if Tag u = [] then ''latest'' else Tag u)\<rparr>"
  by (simp add: String_def StringNoTag_def setDefaults_def)

text \<open>
  The claim as the spec words it (the stored host and tag are unchanged by formatting)
  fails for the reference parsed from \<open>nginx:\<close>: its host and its tag are empty after
  parsing and are the defaults after \<^verbatim>\<open>String\<close>.
\<close>

theorem format_mutates_counterexample:
  "URIFromString ''nginx:'' = Inr \<lparr>Host = [], Name = ''nginx'', Tag = []\<rparr>
   \<and> Host (snd (String \<lparr>Host = [], Name = ''nginx'', Tag = []\<rparr>)) \<noteq> Host \<lparr>Host = [], Name = ''nginx'', Tag = []\<rparr>
   \<and> Tag (snd (String \<lparr>Host = [], Name = ''nginx'', Tag = []\<rparr>)) \<noteq> Tag \<lparr>Host = [], Name = ''nginx'', Tag = []\<rparr>
   \<and> Host (snd (StringNoTag \<lparr>Host = [], Name = ''nginx'', Tag = []\<rparr>)) \<noteq> Host \<lparr>Host = [], Name = ''nginx'', Tag = []\<rparr>"
  by (simp add: URIFromString_def PartCountAfterSplitByColon_def ContainsRune_def
      String_def StringNoTag_def setDefaults_def)



section \<open>Sequences of statements\<close>

lemma run_exited: "exited s \<noteq> None \<Longrightarrow> run fs s = s"
  by (cases fs) auto


lemma run_single: "run [f] s = (if exited s = None then f s else s)"
  by simp



















section \<open>Up: a failed migration\<close>



lemmas run_defs = StartContainers_def example_runtime_def example_stack_def start_of_run_def
      exit_zero_def exit_one_def wait_fails_def crux_wait_fails_def
      orFatal_def Fatal_def Start_def Create_def StartWaitUntilExit_def discardResult_def TraefikConfiguration_def




section \<open>Down: the order of teardown\<close>

lemma created_append: "created (xs @ ys) = created xs @ created ys"
  by (induction xs rule: created.induct) simp_all

lemma resolved_append: "resolved (xs @ ys) = resolved xs @ resolved ys"
  by (induction xs rule: resolved.induct) simp_all

lemma teardown_of_append:
  "teardown_of a x \<Longrightarrow> teardown_of b y \<Longrightarrow> teardown_of (a @ b) (x @ y)"
  by (induction a x rule: teardown_of.induct) simp_all

lemma teardown_of_resolved: "teardown_of names es \<Longrightarrow> resolved es = names"
  by (induction names es rule: teardown_of.induct) simp_all

lemma run_alive:
  assumes "exited (run (f # fs) s) = None"
  shows "exited s = None" and "exited (f s) = None" and "run (f # fs) s = run fs (f s)"
proof -
  show 1: "exited s = None"
    using assms run_exited [of s "f # fs"] by (cases "exited s") auto
  then show 3: "run (f # fs) s = run fs (f s)"
    by simp
  show "exited (f s) = None"
    using assms run_exited [of "f s" fs] unfolding 3 by (cases "exited (f s)") auto
qed

lemma extends_run:
  assumes nil: "P [] []" and app: "\<And>a b x y. P a x \<Longrightarrow> P b y \<Longrightarrow> P (a @ b) (x @ y)"
    and steps: "list_all2 (\<lambda>f ns. \<forall>s. exited (f s) = None \<longrightarrow> (\<exists>es. trace (f s) = trace s @ es \<and> P ns es)) fs nss"
    and alive: "exited (run fs s) = None"
  shows "\<exists>es. trace (run fs s) = trace s @ es \<and> P (concat nss) es"
  using steps alive
proof (induction arbitrary: s rule: list_all2_induct)
  case Nil
  then show ?case using nil by simp
next
  case (Cons f fs ns nss)
  note alive = run_alive [OF Cons.prems]
  from Cons.hyps(1) alive(2) obtain es where es: "trace (f s) = trace s @ es" "P ns es"
    by blast
  from Cons.IH [of "f s"] Cons.prems alive(3) obtain es' where
    es': "trace (run fs (f s)) = trace (f s) @ es'" "P (concat nss) es'"
    by auto
  have "trace (run (f # fs) s) = trace s @ (es @ es')"
    using es(1) es'(1) alive(3) by simp
  moreover have "P (concat (ns # nss)) (es @ es')"
    using app [OF es(2) es'(2)] by simp
  ultimately show ?case by blast
qed

lemma teardown_of_present:
  assumes "i \<noteq> []"
  shows "teardown_of (nm # names)
           (EvGetContainerID nm i # EvContainerStop nm # EvContainerRemove nm # es)
         = teardown_of names es"
  using assms by (cases i) simp_all

lemma cleanupIfPresent_block:
  assumes "exited (cleanupIfPresent rt nm s) = None"
  shows "\<exists>es. trace (cleanupIfPresent rt nm s) = trace s @ es \<and> teardown_of [nm] es"
  using assms
  by (auto simp: cleanupIfPresent_def GetContainerID_def CleanupContainer_def orFatal_def Fatal_def
      teardown_of_present
      split: prod.splits option.splits sum.splits list.splits if_splits)


lemma extends_if:
  assumes "\<forall>s. exited (f s) = None \<longrightarrow> (\<exists>es. trace (f s) = trace s @ es \<and> P ns es)"
    and "P [] []"
  shows "\<forall>s. exited ((\<lambda>s. if b then f s else s) s) = None \<longrightarrow>
           (\<exists>es. trace ((\<lambda>s. if b then f s else s) s) = trace s @ es \<and> P (if b then ns else []) es)"
  using assms by auto

lemma StopContainers_trace:
  assumes "exited (StopContainers rt containers s) = None"
  shows "\<exists>es. trace (StopContainers rt containers s) = trace s @ es
     \<and> teardown_of
          (map (\<lambda>c. ContainerName (Containers containers c))
             ([MailSlurper]
              @ (if Disabled (Containers containers CruxUI) then [] else [CruxUI])
              @ (if Disabled (Containers containers Crux) then [] else [Crux, CruxMigrate])
              @ [KratosMigrate, Kratos, CruxPostgres, KratosPostgres, Traefik])) es"
proof -
  let ?n = "\<lambda>c. ContainerName (Containers containers c)"
  let ?ext = "\<lambda>f ns. \<forall>s. exited (f s) = None \<longrightarrow> (\<exists>es. trace (f s) = trace s @ es \<and> teardown_of ns es)"
  have one: "?ext (cleanupIfPresent rt nm) [nm]" for nm
    using cleanupIfPresent_block by blast
  have two: "?ext (run [cleanupIfPresent rt a, cleanupIfPresent rt b]) (concat [[a], [b]])" for a b
    by (intro allI impI extends_run [where P = teardown_of] teardown_of_append)
      (simp_all add: one)
  have ui: "?ext (\<lambda>s. if \<not> Disabled (Containers containers CruxUI) then
              cleanupIfPresent rt (?n CruxUI) s else s)
            (if \<not> Disabled (Containers containers CruxUI) then [?n CruxUI] else [])"
    using one [of "?n CruxUI"] by auto
  have crux: "?ext (\<lambda>s. if \<not> Disabled (Containers containers Crux) then
              run [cleanupIfPresent rt (?n Crux), cleanupIfPresent rt (?n CruxMigrate)] s else s)
            (if \<not> Disabled (Containers containers Crux) then [?n Crux, ?n CruxMigrate] else [])"
    using two [of "?n Crux" "?n CruxMigrate"] by auto
  have "\<exists>es. trace (StopContainers rt containers s) = trace s @ es
     \<and> teardown_of (concat [[?n MailSlurper],
          (if \<not> Disabled (Containers containers CruxUI) then [?n CruxUI] else []),
          (if \<not> Disabled (Containers containers Crux) then [?n Crux, ?n CruxMigrate] else []),
          [?n KratosMigrate], [?n Kratos], [?n CruxPostgres], [?n KratosPostgres], [?n Traefik]]) es"
    using assms unfolding StopContainers_def
    by (intro extends_run [where P = teardown_of] teardown_of_append)
      (simp_all add: one ui crux)
  then show ?thesis
    by (auto split: if_splits)
qed


lemma StartContainers_trace:
  assumes "exited (StartContainers rt containers host s) = None"
  shows "\<exists>es. trace (StartContainers rt containers host s) = trace s @ es
     \<and> created es =
          [Traefik, CruxPostgres, KratosPostgres, KratosMigrate, Kratos]
          @ (if Disabled (Containers containers Crux) then [] else [CruxMigrate, Crux])
          @ (if Disabled (Containers containers CruxUI) then [] else [CruxUI])
          @ [MailSlurper]"
proof -
  let ?P = "\<lambda>cs es. created es = cs"
  let ?ext = "\<lambda>f cs. \<forall>s. exited (f s) = None \<longrightarrow> (\<exists>es. trace (f s) = trace s @ es \<and> created es = cs)"
  have app: "?P a x \<Longrightarrow> ?P b y \<Longrightarrow> ?P (a @ b) (x @ y)" for a b x y
    by (simp add: created_append)
  have start: "?ext (\<lambda>s. orFatal (Start rt c (Create rt c s))) [c]" for c
    by (auto simp: orFatal_def Fatal_def Start_def Create_def split: prod.splits option.splits)
  have wait: "?ext (\<lambda>s. orFatal (discardResult (StartWaitUntilExit rt c (Create rt c s)))) [c]" for c
    by (auto simp: orFatal_def Fatal_def StartWaitUntilExit_def discardResult_def Create_def
        split: prod.splits option.splits job_exit.splits)
  have conf: "?ext (TraefikConfiguration rt nm d p) []" for nm d p
    by (auto simp: TraefikConfiguration_def Fatal_def Let_def
        split: prod.splits option.splits sum.splits)
  have two: "?ext (run [\<lambda>s. orFatal (discardResult (StartWaitUntilExit rt a (Create rt a s))),
                \<lambda>s. orFatal (Start rt b (Create rt b s))]) (concat [[a], [b]])" for a b
    by (intro allI impI extends_run [where P = ?P] app) (simp_all add: start wait)
  have ui: "?ext (\<lambda>s. if \<not> Disabled (Containers containers CruxUI) then
              orFatal (Start rt CruxUI (Create rt CruxUI s)) else s)
            (if \<not> Disabled (Containers containers CruxUI) then [CruxUI] else [])"
    using start [of CruxUI] by auto
  have crux: "?ext (\<lambda>s. if \<not> Disabled (Containers containers Crux) then
              run [\<lambda>s. orFatal (discardResult (StartWaitUntilExit rt CruxMigrate (Create rt CruxMigrate s))),
                \<lambda>s. orFatal (Start rt Crux (Create rt Crux s))] s else s)
            (if \<not> Disabled (Containers containers Crux) then [CruxMigrate, Crux] else [])"
    using two [of CruxMigrate Crux] by auto
  have "\<exists>es. trace (StartContainers rt containers host s) = trace s @ es
     \<and> created es = concat [[Traefik], [], [CruxPostgres], [KratosPostgres], [KratosMigrate], [Kratos],
          (if \<not> Disabled (Containers containers Crux) then [CruxMigrate, Crux] else []),
          (if \<not> Disabled (Containers containers CruxUI) then [CruxUI] else []),
          [MailSlurper]]"
    using assms unfolding StartContainers_def
    by (intro extends_run [where P = ?P] app) (simp_all add: start wait conf ui crux)
  then show ?thesis
    by (auto split: if_splits)
qed

text \<open>
  Claim C5, as the code has it. When up and down each run to their end without a fatal
  error, up creates Traefik, CruxPostgres, KratosPostgres, KratosMigrate, Kratos, then
  CruxMigrate and Crux unless Crux is disabled, CruxUI unless it is disabled, and
  MailSlurper; down resolves the names of the same containers in the order MailSlurper,
  CruxUI, Crux, CruxMigrate, KratosMigrate, Kratos, CruxPostgres, KratosPostgres, Traefik
  (the reverse of creation but for KratosMigrate before Kratos and CruxPostgres before
  KratosPostgres); and for every such name down resolves the ID, invokes nothing more when
  the ID is empty, and otherwise stops the container and then removes it.
\<close>

theorem teardown_order:
  assumes "exited (StartContainers rt containers host (start_of_run w)) = None"
    and "exited (StopContainers rt' containers (start_of_run w')) = None"
  shows "created (trace (StartContainers rt containers host (start_of_run w))) =
           [Traefik, CruxPostgres, KratosPostgres, KratosMigrate, Kratos]
           @ (if Disabled (Containers containers Crux) then [] else [CruxMigrate, Crux])
           @ (if Disabled (Containers containers CruxUI) then [] else [CruxUI])
           @ [MailSlurper]
       \<and> resolved (trace (StopContainers rt' containers (start_of_run w'))) =
           map (nameOf containers)
             ([MailSlurper]
              @ (if Disabled (Containers containers CruxUI) then [] else [CruxUI])
              @ (if Disabled (Containers containers Crux) then [] else [Crux, CruxMigrate])
              @ [KratosMigrate, Kratos, CruxPostgres, KratosPostgres, Traefik])
       \<and> teardown_of (resolved (trace (StopContainers rt' containers (start_of_run w'))))
           (trace (StopContainers rt' containers (start_of_run w')))"
proof -
  have tr: "trace (start_of_run v) = []" for v :: 'c
    by (simp add: start_of_run_def)
  from StartContainers_trace [OF assms(1)]
  have up: "created (trace (StartContainers rt containers host (start_of_run w))) =
           [Traefik, CruxPostgres, KratosPostgres, KratosMigrate, Kratos]
           @ (if Disabled (Containers containers Crux) then [] else [CruxMigrate, Crux])
           @ (if Disabled (Containers containers CruxUI) then [] else [CruxUI])
           @ [MailSlurper]"
    by (auto simp: start_of_run_def)
  from StopContainers_trace [OF assms(2)]
  have down: "teardown_of
          (map (\<lambda>c. ContainerName (Containers containers c))
             ([MailSlurper]
              @ (if Disabled (Containers containers CruxUI) then [] else [CruxUI])
              @ (if Disabled (Containers containers Crux) then [] else [Crux, CruxMigrate])
              @ [KratosMigrate, Kratos, CruxPostgres, KratosPostgres, Traefik]))
          (trace (StopContainers rt' containers (start_of_run w')))"
    by (auto simp: start_of_run_def)
  from teardown_of_resolved [OF down] up down show ?thesis
    unfolding nameOf_def by simp
qed

lemmas down_defs = StopContainers_def cleanupIfPresent_def GetContainerID_def CleanupContainer_def
  example_containers_def

lemma example_up:
  "StartContainers (example_runtime exit_zero) example_stack ''localhost'' (start_of_run []) =
     \<lparr>world = [],
      trace = [EvCreate Traefik, EvStart Traefik, EvTraefikConfiguration ''traefik'',
        EvCreate CruxPostgres, EvStart CruxPostgres, EvCreate KratosPostgres, EvStart KratosPostgres,
        EvCreate KratosMigrate, EvStartWaitUntilExit KratosMigrate, EvJobExit KratosMigrate 0,
        EvCreate Kratos, EvStart Kratos,
        EvCreate CruxMigrate, EvStartWaitUntilExit CruxMigrate, EvJobExit CruxMigrate 0,
        EvCreate Crux, EvStart Crux, EvCreate CruxUI, EvStart CruxUI,
        EvCreate MailSlurper, EvStart MailSlurper],
      exited = None\<rparr>"
  by (simp add: run_defs)

lemma example_down:
  "StopContainers (example_runtime exit_zero) example_stack (start_of_run example_containers) =
     \<lparr>world = [],
      trace =
       [EvGetContainerID ''mailslurper'' ''id-mailslurper'',
        EvContainerStop ''mailslurper'', EvContainerRemove ''mailslurper'',
        EvGetContainerID ''crux-ui'' ''id-crux-ui'',
        EvContainerStop ''crux-ui'', EvContainerRemove ''crux-ui'',
        EvGetContainerID ''crux'' ''id-crux'',
        EvContainerStop ''crux'', EvContainerRemove ''crux'',
        EvGetContainerID ''crux-migrate'' ''id-crux-migrate'',
        EvContainerStop ''crux-migrate'', EvContainerRemove ''crux-migrate'',
        EvGetContainerID ''kratos-migrate'' ''id-kratos-migrate'',
        EvContainerStop ''kratos-migrate'', EvContainerRemove ''kratos-migrate'',
        EvGetContainerID ''kratos'' ''id-kratos'',
        EvContainerStop ''kratos'', EvContainerRemove ''kratos'',
        EvGetContainerID ''crux-postgres'' ''id-crux-postgres'',
        EvContainerStop ''crux-postgres'', EvContainerRemove ''crux-postgres'',
        EvGetContainerID ''kratos-postgres'' ''id-kratos-postgres'',
        EvContainerStop ''kratos-postgres'', EvContainerRemove ''kratos-postgres'',
        EvGetContainerID ''traefik'' ''id-traefik'',
        EvContainerStop ''traefik'', EvContainerRemove ''traefik''],
      exited = None\<rparr>"
  by (simp add: run_defs down_defs)

lemma example_stack_fields:
  "Disabled (Containers example_stack c) = False"
  "ContainerName (Containers example_stack c) = example_name c"
  by (simp_all add: example_stack_def)

theorem teardown_order_witness:
  "exited (StartContainers (example_runtime exit_zero) example_stack ''localhost'' (start_of_run [])) = None
   \<and> exited (StopContainers (example_runtime exit_zero) example_stack (start_of_run example_containers)) = None
   \<and> created (trace (StartContainers (example_runtime exit_zero) example_stack ''localhost'' (start_of_run []))) =
        [Traefik, CruxPostgres, KratosPostgres, KratosMigrate, Kratos, CruxMigrate, Crux, CruxUI,
         MailSlurper]
   \<and> resolved (trace (StopContainers (example_runtime exit_zero) example_stack (start_of_run example_containers))) =
        [''mailslurper'', ''crux-ui'', ''crux'', ''crux-migrate'', ''kratos-migrate'', ''kratos'',
         ''crux-postgres'', ''kratos-postgres'', ''traefik'']
   \<and> teardown_of
        (resolved (trace (StopContainers (example_runtime exit_zero) example_stack (start_of_run example_containers))))
        (trace (StopContainers (example_runtime exit_zero) example_stack (start_of_run example_containers)))"
proof -
  have up: "exited (StartContainers (example_runtime exit_zero) example_stack ''localhost'' (start_of_run [])) = None"
    by (simp add: example_up)
  have down: "exited (StopContainers (example_runtime exit_zero) example_stack (start_of_run example_containers)) = None"
    by (simp add: example_down)
  note order = teardown_order [OF up down]
  from order have 1: "created (trace (StartContainers (example_runtime exit_zero) example_stack ''localhost'' (start_of_run []))) =
        [Traefik, CruxPostgres, KratosPostgres, KratosMigrate, Kratos, CruxMigrate, Crux, CruxUI,
         MailSlurper]"
    by (simp add: example_stack_fields nameOf_def)
  from order have 2: "resolved (trace (StopContainers (example_runtime exit_zero) example_stack (start_of_run example_containers))) =
        [''mailslurper'', ''crux-ui'', ''crux'', ''crux-migrate'', ''kratos-migrate'', ''kratos'',
         ''crux-postgres'', ''kratos-postgres'', ''traefik'']"
    by (simp add: example_stack_fields nameOf_def)
  from order have 3: "teardown_of
        (resolved (trace (StopContainers (example_runtime exit_zero) example_stack (start_of_run example_containers))))
        (trace (StopContainers (example_runtime exit_zero) example_stack (start_of_run example_containers)))"
    by (elim conjE)
  from up down 1 2 3 show ?thesis
    by (intro conjI)
qed

text \<open>
  The claim as the spec words it (down processes the names in the exact reverse of the
  order in which up creates them) fails for the example stack with every component
  enabled: both runs end without error, and down takes \<open>kratos-migrate\<close> before
  \<open>kratos\<close> and \<open>crux-postgres\<close> before \<open>kratos-postgres\<close>.
\<close>

theorem teardown_not_reverse_counterexample:
  "exited (StartContainers (example_runtime exit_zero) example_stack ''localhost'' (start_of_run [])) = None
   \<and> exited (StopContainers (example_runtime exit_zero) example_stack (start_of_run example_containers)) = None
   \<and> resolved (trace (StopContainers (example_runtime exit_zero) example_stack (start_of_run example_containers)))
      \<noteq> rev (map (nameOf example_stack)
            (created (trace (StartContainers (example_runtime exit_zero) example_stack ''localhost''
               (start_of_run [])))))"
  by (simp add: example_up example_down example_stack_fields nameOf_def)

section \<open>Resolving a name\<close>

text \<open>
  Claim C6. When the client is created and the listing succeeds, \<^verbatim>\<open>GetContainerID\<close>
  returns the empty ID without ending the process if no container matches the name,
  returns the ID of the container if exactly one matches, and ends the process with the
  fatal message \<open>ambigous name\<close> if more than one matches.
\<close>

theorem GetContainerID_by_matches:
  assumes "exited s = None"
    and "NewClientWithOpts rt (world s) = None"
    and "ContainerList rt (''^'' @ nm @ ''$'') (world s) = Inr cs"
  shows "(length cs = 0 \<longrightarrow>
            fst (GetContainerID rt nm s) = [] \<and> exited (snd (GetContainerID rt nm s)) = None)
       \<and> (length cs = 1 \<longrightarrow>
            fst (GetContainerID rt nm s) = ID (hd cs) \<and> exited (snd (GetContainerID rt nm s)) = None)
       \<and> (1 < length cs \<longrightarrow>
            exited (snd (GetContainerID rt nm s)) = Some ''ambigous name'')"
  using assms by (auto simp: GetContainerID_def Fatal_def split: list.splits)

theorem GetContainerID_by_matches_witness:
  "fst (GetContainerID (example_runtime exit_zero) ''kratos'' (start_of_run [])) = []
   \<and> exited (snd (GetContainerID (example_runtime exit_zero) ''kratos'' (start_of_run []))) = None
   \<and> fst (GetContainerID (example_runtime exit_zero) ''kratos'' (start_of_run example_containers))
       = ''id-kratos''
   \<and> exited (snd (GetContainerID (example_runtime exit_zero) ''kratos''
       (start_of_run example_containers))) = None
   \<and> exited (snd (GetContainerID (example_runtime exit_zero) ''kratos''
       (start_of_run [\<lparr>ID = ''a'', Names = [''kratos'']\<rparr>, \<lparr>ID = ''b'', Names = [''kratos'']\<rparr>])))
       = Some ''ambigous name''"
proof -
  let ?rt = "example_runtime exit_zero"
  let ?two = "[\<lparr>ID = ''a'', Names = [''kratos'']\<rparr>, \<lparr>ID = ''b'', Names = [''kratos'']\<rparr>]"
  have alive: "exited (start_of_run w) = None" for w :: "Container list"
    by (simp add: start_of_run_def)
  have client: "NewClientWithOpts ?rt (world (start_of_run w)) = None" for w
    by (simp add: example_runtime_def)
  have none: "ContainerList ?rt (''^'' @ ''kratos'' @ ''$'') (world (start_of_run [])) = Inr []"
    by (simp add: example_runtime_def start_of_run_def)
  have one: "ContainerList ?rt (''^'' @ ''kratos'' @ ''$'') (world (start_of_run example_containers))
      = Inr [\<lparr>ID = ''id-kratos'', Names = [''kratos'']\<rparr>]"
    by (simp add: example_runtime_def start_of_run_def example_containers_def)
  have two: "ContainerList ?rt (''^'' @ ''kratos'' @ ''$'') (world (start_of_run ?two)) = Inr ?two"
    by (simp add: example_runtime_def start_of_run_def)
  show ?thesis
    using GetContainerID_by_matches [OF alive client none]
      GetContainerID_by_matches [OF alive client one]
      GetContainerID_by_matches [OF alive client two]
    by simp
qed

section \<open>The merge laws\<close>

lemma pick_None [simp]: "pick None x = x" "pick x None = x"
  by (simp_all add: pick_def split: option.splits)

lemma pick_Some [simp]: "pick (Some v) x = Some v"
  by (simp add: pick_def)

lemma mergeNested_None [simp]: "mergeNested f None x = x" "mergeNested f x None = x"
  by (simp_all add: mergeNested_def split: option.splits)

lemma squash_single: "squashConfigs emptyConfig base = base"
  by (simp add: squashConfigs_def mergeConfigs_def emptyConfig_def)

text \<open>
  Claim C1. For every base layer, the merge of that one layer with the empty instance
  has every field of the base layer unchanged, except the secrets: every secret the base
  declares is there, in the base's order, with the base's id, key and required flag and
  the unresolved material \<^verbatim>\<open>encrypted: false\<close>, \<^verbatim>\<open>value: ""\<close>,
  \<^verbatim>\<open>publicKey: null\<close>; no declared secret is dropped.
\<close>

theorem merge_empty_instance:
  "(let merged = mergeConfigsWithConcreteConfig [base] emptyConfig in
      name merged = name base
      \<and> capabilities merged = capabilities base
      \<and> deploymentStrategy merged = deploymentStrategy base
      \<and> workingDirectory merged = workingDirectory base
      \<and> expose merged = expose base
      \<and> networkMode merged = networkMode base
      \<and> proxyHeaders merged = proxyHeaders base
      \<and> restartPolicy merged = restartPolicy base
      \<and> tty merged = tty base
      \<and> useLoadBalancer merged = useLoadBalancer base
      \<and> annotations merged = annotations base
      \<and> labels merged = labels base
      \<and> args merged = args base
      \<and> commands merged = commands base
      \<and> configContainer merged = configContainer base
      \<and> customHeaders merged = customHeaders base
      \<and> dockerLabels merged = dockerLabels base
      \<and> environment merged = environment base
      \<and> extraLBAnnotations merged = extraLBAnnotations base
      \<and> healthCheckConfig merged = healthCheckConfig base
      \<and> storageSet merged = storageSet base
      \<and> storageId merged = storageId base
      \<and> storageConfig merged = storageConfig base
      \<and> routing merged = routing base
      \<and> initContainers merged = initContainers base
      \<and> logConfig merged = logConfig base
      \<and> networks merged = networks base
      \<and> portRanges merged = portRanges base
      \<and> ports merged = ports base
      \<and> resourceConfig merged = resourceConfig base
      \<and> secrets merged =
        Some (map (\<lambda>it. \<lparr>sv_id = sk_id it, sv_key = sk_key it, sv_required = sk_required it,
                         sv_encrypted = False, sv_value = [], sv_publicKey = None\<rparr>)
               (case secrets base of None \<Rightarrow> [] | Some declared \<Rightarrow> declared))
      \<and> user merged = user base
      \<and> volumes merged = volumes base
      \<and> metrics merged = metrics base
      \<and> expectedState merged = expectedState base)"
  unfolding mergeConfigsWithConcreteConfig_def Let_def foldl.simps squash_single
  by (simp add: mergeConfigs_def emptyConfig_def mergeSecrets_def orEmpty_def unresolved_def)












text \<open>
  The second case of the test: with the instance \<^verbatim>\<open>{}\<close> the secret of
  \<^verbatim>\<open>fullConfig\<close> comes out unresolved. The third case: the expected value is that of
  the second case with the instance's ports, \<^verbatim>\<open>labels.deployment\<close> and
  \<^verbatim>\<open>annotations.service\<close> in place of the base's.
\<close>

lemma merge_test_config:
  "secrets (mergeConfigsWithConcreteConfig [fullConfig] emptyConfig) =
     Some [\<lparr>sv_id = ''secret1'', sv_key = ''secret1'', sv_required = False,
            sv_encrypted = False, sv_value = [], sv_publicKey = None\<rparr>]"
  unfolding mergeConfigsWithConcreteConfig_def Let_def foldl.simps squash_single
  by (simp add: mergeConfigs_def emptyConfig_def fullConfig_def mergeSecrets_def orEmpty_def
      unresolved_def)

lemma merge_test_instance_only:
  "mergeConfigsWithConcreteConfig [fullConfig] partialInstance =
     (mergeConfigsWithConcreteConfig [fullConfig] emptyConfig)
      \<lparr>ports := ports fullConcreteConfig,
       labels := Some
         \<lparr>deployment = Some [\<lparr>kv_id = ''instance.labels.deployment'',
            kv_key = ''instance.labels.deployment'', kv_value = ''instance.labels.deployment''\<rparr>],
          service = Some [\<lparr>kv_id = ''labels.service'', kv_key = ''labels.service'',
            kv_value = ''labels.service''\<rparr>],
          ingress = Some [\<lparr>kv_id = ''labels.ingress'', kv_key = ''labels.ingress'',
            kv_value = ''labels.ingress''\<rparr>]\<rparr>,
       annotations := Some
         \<lparr>deployment = Some [\<lparr>kv_id = ''annotations.deployment'',
            kv_key = ''annotations.deployment'', kv_value = ''annotations.deployment''\<rparr>],
          service = Some [\<lparr>kv_id = ''instance.annotations.service'',
            kv_key = ''instance.annotations.service'', kv_value = ''instance.annotations.service''\<rparr>],
          ingress = Some [\<lparr>kv_id = ''annotations.ingress'', kv_key = ''annotations.ingress'',
            kv_value = ''annotations.ingress''\<rparr>]\<rparr>\<rparr>"
  unfolding mergeConfigsWithConcreteConfig_def Let_def foldl.simps squash_single
  by (simp add: mergeConfigs_def emptyConfig_def fullConfig_def fullConcreteConfig_def
      partialInstance_def mergeSecrets_def orEmpty_def unresolved_def mergeNested_def
      mergeMarkers_def)








text \<open>
  An instance that defines every field, every partition and every leaf defines every
  field that any base layer defines, so the law holds for it over every base layer whose
  secrets it resolves.
\<close>

lemma definesEveryField_over_any_base:
  assumes "definesEveryField concrete"
  shows "definesEveryFieldOf base concrete"
proof -
  from assms have
    "annotations concrete \<noteq> None"
    "labels concrete \<noteq> None"
    "configContainer concrete \<noteq> None"
    "healthCheckConfig concrete \<noteq> None"
    "storageConfig concrete \<noteq> None"
    "routing concrete \<noteq> None"
    "logConfig concrete \<noteq> None"
    "resourceConfig concrete \<noteq> None"
    unfolding definesEveryField_def by simp_all
  then obtain v0 v1 v2 v3 v4 v5 v6 v7 where eqs:
    "annotations concrete = Some v0"
    "labels concrete = Some v1"
    "configContainer concrete = Some v2"
    "healthCheckConfig concrete = Some v3"
    "storageConfig concrete = Some v4"
    "routing concrete = Some v5"
    "logConfig concrete = Some v6"
    "resourceConfig concrete = Some v7"
    by auto
  show ?thesis
    using assms unfolding definesEveryField_def definesEveryFieldOf_def
    by (simp add: eqs)
qed

text \<open>
  Claim C3. For every base layer and every instance that defines only its ports and
  (partitions of) its labels and annotations, the merge of the one layer with the
  instance has the instance's ports; each partition of the labels and of the annotations
  holds the instance's entries when the instance defines the partition, and is the base's
  partition, unchanged, when it does not; every other field is the base's, and the
  secrets are the base's in the unresolved form.
\<close>

theorem merge_partial_instance:
  "(let inst = emptyConfig\<lparr>ports := Some instancePorts, labels := Some instanceLabels,
                      annotations := Some instanceAnnotations\<rparr>;
        merged = mergeConfigsWithConcreteConfig [base] inst in
      name merged = name base
      \<and> capabilities merged = capabilities base
      \<and> deploymentStrategy merged = deploymentStrategy base
      \<and> workingDirectory merged = workingDirectory base
      \<and> expose merged = expose base
      \<and> networkMode merged = networkMode base
      \<and> proxyHeaders merged = proxyHeaders base
      \<and> restartPolicy merged = restartPolicy base
      \<and> tty merged = tty base
      \<and> useLoadBalancer merged = useLoadBalancer base
      \<and> annotations merged =
        Some \<lparr>deployment = (case deployment instanceAnnotations of Some entries \<Rightarrow> Some entries
                | None \<Rightarrow> (case annotations base of None \<Rightarrow> None | Some m \<Rightarrow> deployment m)),
              service = (case service instanceAnnotations of Some entries \<Rightarrow> Some entries
                | None \<Rightarrow> (case annotations base of None \<Rightarrow> None | Some m \<Rightarrow> service m)),
              ingress = (case ingress instanceAnnotations of Some entries \<Rightarrow> Some entries
                | None \<Rightarrow> (case annotations base of None \<Rightarrow> None | Some m \<Rightarrow> ingress m))\<rparr>
      \<and> labels merged =
        Some \<lparr>deployment = (case deployment instanceLabels of Some entries \<Rightarrow> Some entries
                | None \<Rightarrow> (case labels base of None \<Rightarrow> None | Some m \<Rightarrow> deployment m)),
              service = (case service instanceLabels of Some entries \<Rightarrow> Some entries
                | None \<Rightarrow> (case labels base of None \<Rightarrow> None | Some m \<Rightarrow> service m)),
              ingress = (case ingress instanceLabels of Some entries \<Rightarrow> Some entries
                | None \<Rightarrow> (case labels base of None \<Rightarrow> None | Some m \<Rightarrow> ingress m))\<rparr>
      \<and> args merged = args base
      \<and> commands merged = commands base
      \<and> configContainer merged = configContainer base
      \<and> customHeaders merged = customHeaders base
      \<and> dockerLabels merged = dockerLabels base
      \<and> environment merged = environment base
      \<and> extraLBAnnotations merged = extraLBAnnotations base
      \<and> healthCheckConfig merged = healthCheckConfig base
      \<and> storageSet merged = storageSet base
      \<and> storageId merged = storageId base
      \<and> storageConfig merged = storageConfig base
      \<and> routing merged = routing base
      \<and> initContainers merged = initContainers base
      \<and> logConfig merged = logConfig base
      \<and> networks merged = networks base
      \<and> portRanges merged = portRanges base
      \<and> ports merged = Some instancePorts
      \<and> resourceConfig merged = resourceConfig base
      \<and> secrets merged =
        Some (map (\<lambda>it. \<lparr>sv_id = sk_id it, sv_key = sk_key it, sv_required = sk_required it,
                         sv_encrypted = False, sv_value = [], sv_publicKey = None\<rparr>)
               (case secrets base of None \<Rightarrow> [] | Some declared \<Rightarrow> declared))
      \<and> user merged = user base
      \<and> volumes merged = volumes base
      \<and> metrics merged = metrics base
      \<and> expectedState merged = expectedState base)"
  unfolding mergeConfigsWithConcreteConfig_def Let_def foldl.simps squash_single
  by (simp add: mergeConfigs_def emptyConfig_def mergeSecrets_def orEmpty_def unresolved_def
      mergeNested_def mergeMarkers_def pick_def split: option.splits)

end
